theory Spec2Isabelle
  imports Complex_Main "HOL-Library.Sublist"
begin

section \<open>Python values, exceptions and the library\<close>

text \<open>
  The audit engine of \<^verbatim>\<open>backend/audit_service.py\<close> works on values that come out of
  \<^verbatim>\<open>json.loads\<close> and on dictionaries with values of any type. Both are modelled by one
  datatype of Python values: \<open>JNull\<close> is \<^verbatim>\<open>None\<close>, \<open>JInt\<close> an \<^verbatim>\<open>int\<close>, \<open>JNum\<close> a
  \<^verbatim>\<open>float\<close>, an object is the list of its items (looked up with \<open>map_of\<close>). Floats are
  exact rationals: the rounding of IEEE doubles, NaN and the infinities are outside the
  model.
\<close>

datatype json =
    JNull
  | JBool bool
  | JInt int
  | JNum rat
  | JStr string
  | JArr "json list"
  | JObj "(string \<times> json) list"

text \<open>
  Exceptions are values. Each exception the engine's own code can raise carries the value
  that caused it: \<open>NoAttribute\<close> is an \<^verbatim>\<open>AttributeError\<close>, \<open>NotIterable\<close>, \<open>FloatTypeError\<close>
  and \<open>Unhashable\<close> are \<^verbatim>\<open>TypeError\<close>s, \<open>FloatValueError\<close> is the \<^verbatim>\<open>ValueError\<close> of
  \<^verbatim>\<open>float\<close>, \<open>FloatOverflow\<close> and \<open>DateOverflow\<close> are \<^verbatim>\<open>OverflowError\<close>s. \<open>LibraryError\<close>
  stands for any other exception that a library call (the database session, \<^verbatim>\<open>json\<close>,
  \<^verbatim>\<open>re\<close>) raises, with its description.
\<close>

datatype exn =
    JSONDecodeError
  | NoAttribute json string
  | NotIterable json
  | FloatTypeError json
  | FloatValueError string
  | Unhashable json
  | NameError string
  | FloatOverflow int
  | DateOverflow
  | LibraryError string

text \<open>
  The regular expressions of the field extractor are constants of the source. They are
  written as syntax trees: a literal text, a repetition of a character class between a
  least and a greatest count (greedy or lazy), a sequence, an alternative, the capturing
  group and the end of the text (\<^verbatim>\<open>$\<close>). A class is a list of characters, ranges and
  \<^verbatim>\<open>\s\<close>.
\<close>

datatype atom = Ch char | Rng char char | Space

datatype rx =
    Lit string
  | Many "atom list" nat "nat option"
  | Few "atom list" nat
  | Cat rx rx
  | Or rx rx
  | Grp rx
  | Eos

text \<open>
  The functions of Python's runtime and standard library that the engine calls are
  parameters of the model, so every theorem holds for whatever they compute:
  \<^item> \<open>json_loads\<close> is \<^verbatim>\<open>json.loads\<close>;
  \<^item> \<open>float_str\<close> is \<^verbatim>\<open>float\<close> on a \<^verbatim>\<open>str\<close> and \<open>int_str\<close> is \<^verbatim>\<open>int\<close> on a
    \<^verbatim>\<open>str\<close>, \<open>None\<close> being \<^verbatim>\<open>ValueError\<close>;
  \<^item> \<open>str_val\<close>, \<open>str_float\<close> and \<open>str_exn\<close> are \<^verbatim>\<open>str\<close> (and the rendering inside an
    f-string) of a value, of a float and of an exception;
  \<^item> \<open>re_search p s\<close> is group 1 of \<^verbatim>\<open>re.search(p, s, re.IGNORECASE)\<close>, \<open>None\<close> when
    there is no match; the pattern is given as a syntax tree (below);
  \<^item> \<open>re_match p s\<close> is whether \<^verbatim>\<open>re.match(p, s)\<close> matched, or the exception it raised;
  \<^item> \<open>now_ordinal\<close> is the day number of \<^verbatim>\<open>datetime.now()\<close> (day 1 is 0001-01-01).
\<close>

record pylib =
  json_loads :: "string \<Rightarrow> exn + json"
  float_str :: "string \<Rightarrow> rat option"
  int_str :: "string \<Rightarrow> int option"
  str_val :: "json \<Rightarrow> string"
  str_float :: "rat \<Rightarrow> string"
  str_exn :: "exn \<Rightarrow> string"
  re_search :: "rx \<Rightarrow> string \<Rightarrow> string option"
  re_match :: "string option \<Rightarrow> string \<Rightarrow> exn + bool"
  now_ordinal :: int

definition bindE :: "exn + 'a \<Rightarrow> ('a \<Rightarrow> exn + 'b) \<Rightarrow> exn + 'b" where
  "bindE m f = (case m of Inl e \<Rightarrow> Inl e | Inr x \<Rightarrow> f x)"

text \<open>\<^verbatim>\<open>d.get(k, default)\<close> on a dictionary, and on any value (only a dictionary has it).\<close>

definition dict_get :: "(string \<times> json) list \<Rightarrow> string \<Rightarrow> json \<Rightarrow> json" where
  "dict_get d k dflt = (case map_of d k of None \<Rightarrow> dflt | Some v \<Rightarrow> v)"

fun py_get :: "json \<Rightarrow> string \<Rightarrow> json \<Rightarrow> exn + json" where
  "py_get (JObj d) k dflt = Inr (dict_get d k dflt)"
| "py_get v k dflt = Inl (NoAttribute v ''get'')"

text \<open>
  \<^verbatim>\<open>float(v)\<close>: a number, a bool or a string that parses; anything else raises. An
  \<^verbatim>\<open>int\<close> that rounds to a magnitude beyond the largest double raises \<^verbatim>\<open>OverflowError\<close>.
\<close>

definition float_int_bound :: int where
  "float_int_bound = 2 ^ 1024 - 2 ^ 970"

fun py_float :: "pylib \<Rightarrow> json \<Rightarrow> exn + rat" where
  "py_float L (JNum r) = Inr r"
| "py_float L (JInt i) =
     (if \<bar>i\<bar> < float_int_bound then Inr (of_int i) else Inl (FloatOverflow i))"
| "py_float L (JBool b) = Inr (if b then 1 else 0)"
| "py_float L (JStr s) =
     (case float_str L s of None \<Rightarrow> Inl (FloatValueError s) | Some r \<Rightarrow> Inr r)"
| "py_float L v = Inl (FloatTypeError v)"

text \<open>\<^verbatim>\<open>for item in v\<close>: a list gives its elements, a string its characters, a dictionary
  its keys; nothing else can be iterated.\<close>

fun py_iter :: "json \<Rightarrow> exn + json list" where
  "py_iter (JArr xs) = Inr xs"
| "py_iter (JStr s) = Inr (map (\<lambda>c. JStr [c]) s)"
| "py_iter (JObj d) = Inr (map (\<lambda>kv. JStr (fst kv)) d)"
| "py_iter v = Inl (NotIterable v)"

text \<open>Truth value of a Python value (\<^verbatim>\<open>if v\<close>, \<^verbatim>\<open>not v\<close>).\<close>

fun truthy :: "json \<Rightarrow> bool" where
  "truthy JNull = False"
| "truthy (JBool b) = b"
| "truthy (JInt i) = (i \<noteq> 0)"
| "truthy (JNum r) = (r \<noteq> 0)"
| "truthy (JStr s) = (s \<noteq> [])"
| "truthy (JArr xs) = (xs \<noteq> [])"
| "truthy (JObj d) = (d \<noteq> [])"

subsection \<open>Strings\<close>

text \<open>
  Text is ASCII: \<open>lower_char\<close> and \<open>upper_char\<close> are \<^verbatim>\<open>str.lower\<close> and \<^verbatim>\<open>str.upper\<close> on
  one ASCII character. \<^verbatim>\<open>kw in content\<close> on strings is \<open>sublist kw content\<close>.
\<close>

definition is_upper :: "char \<Rightarrow> bool" where
  "is_upper c = (65 \<le> (of_char c :: nat) \<and> (of_char c :: nat) \<le> 90)"

definition is_lower :: "char \<Rightarrow> bool" where
  "is_lower c = (97 \<le> (of_char c :: nat) \<and> (of_char c :: nat) \<le> 122)"

definition lower_char :: "char \<Rightarrow> char" where
  "lower_char c = (if is_upper c then char_of ((of_char c :: nat) + 32) else c)"

definition upper_char :: "char \<Rightarrow> char" where
  "upper_char c = (if is_lower c then char_of ((of_char c :: nat) - 32) else c)"

definition lower :: "string \<Rightarrow> string" where
  "lower s = map lower_char s"

text \<open>\<^verbatim>\<open>sep.join(xs)\<close>.\<close>

fun join :: "string \<Rightarrow> string list \<Rightarrow> string" where
  "join sep [] = []"
| "join sep [x] = x"
| "join sep (x # y # ys) = x @ sep @ join sep (y # ys)"

text \<open>
  The decimal digits of an integer that is not negative, and of a natural number as
  \<^verbatim>\<open>str(len(xs))\<close> prints them.
\<close>

function str_pos :: "int \<Rightarrow> string" where
  "str_pos i =
     (if i < 10 then [char_of (48 + i)] else str_pos (i div 10) @ [char_of (48 + i mod 10)])"
  by pat_completeness auto
termination
  by (relation "measure nat") auto

declare str_pos.simps [simp del]

definition str_nat :: "nat \<Rightarrow> string" where
  "str_nat n = str_pos (int n)"

section \<open>The data model\<close>

text \<open>
  \<^verbatim>\<open>models.py\<close> and \<^verbatim>\<open>schemas.py\<close> are not among the source files; the records below
  have the attributes the engine reads and the keyword arguments it passes. A violation
  is the dictionary the engine builds; \<open>flagged_items\<close> is \<open>None\<close> when the key is not
  set. \<open>approval_status\<close> and \<open>status_color\<close> are \<open>None\<close> when the constructor is
  called without them.
\<close>

record AuditRule =
  category :: string
  max_limit :: rat
  is_restricted :: bool
  description :: string

record violation =
  v_rule_name :: string
  v_field_name :: string
  violation_type :: string
  v_severity :: string
  message :: string
  flagged_items :: "json list option"

record AuditResult =
  is_compliant :: bool
  total_violations :: nat
  violations :: "violation list"
  compliance_score :: rat
  summary :: string
  approval_status :: "string option"
  status_color :: "string option"

section \<open>The category audit: \<^verbatim>\<open>perform_audit\<close>\<close>

text \<open>
  \<^verbatim>\<open>rules_dict = {rule.category: rule for rule in audit_rules}\<close>: a later rule replaces
  an earlier one of the same category.
\<close>

definition rules_dict_of :: "AuditRule list \<Rightarrow> (string \<rightharpoonup> AuditRule)" where
  "rules_dict_of audit_rules = fold (\<lambda>rule m. m(category rule \<mapsto> rule)) audit_rules Map.empty"

text \<open>
  \<^verbatim>\<open>rules_dict.get(category)\<close>: the keys are strings, so a key of another hashable type
  finds nothing, and a list or a dictionary cannot be hashed.
\<close>

fun rules_get :: "(string \<rightharpoonup> AuditRule) \<Rightarrow> json \<Rightarrow> exn + AuditRule option" where
  "rules_get rules_dict (JStr s) = Inr (rules_dict s)"
| "rules_get rules_dict (JArr xs) = Inl (Unhashable (JArr xs))"
| "rules_get rules_dict (JObj d) = Inl (Unhashable (JObj d))"
| "rules_get rules_dict v = Inr None"

text \<open>
  Lines 402 to 404: the rule of the category, or the rule of \<^verbatim>\<open>'Others'\<close> when there is none
  (a rule object is always true).
\<close>

definition resolve_rule :: "(string \<rightharpoonup> AuditRule) \<Rightarrow> json \<Rightarrow> exn + AuditRule option" where
  "resolve_rule rules_dict cat =
     bindE (rules_get rules_dict cat) (\<lambda>rule.
       Inr (case rule of None \<Rightarrow> rules_dict ''Others'' | Some r \<Rightarrow> Some r))"

definition restricted_violation :: "pylib \<Rightarrow> json \<Rightarrow> json \<Rightarrow> violation" where
  "restricted_violation L item_name cat =
     \<lparr> v_rule_name = str_val L cat @ '' - Restricted Category'',
       v_field_name = ''category'',
       violation_type = ''restricted_item'',
       v_severity = ''high'',
       message = str_val L item_name @ '' ('' @ str_val L cat @ '') is strictly prohibited'',
       flagged_items = Some [item_name] \<rparr>"

definition amount_violation :: "pylib \<Rightarrow> json \<Rightarrow> json \<Rightarrow> rat \<Rightarrow> AuditRule \<Rightarrow> violation" where
  "amount_violation L item_name cat amount rule =
     \<lparr> v_rule_name = str_val L cat @ '' - Amount Limit Exceeded'',
       v_field_name = ''amount'',
       violation_type = ''amount_exceeded'',
       v_severity = ''medium'',
       message = str_val L item_name @ '' amount Rs.'' @ str_float L amount @ '' exceeds ''
         @ str_val L cat @ '' limit of Rs.'' @ str_float L (max_limit rule),
       flagged_items = Some [item_name] \<rparr>"

text \<open>
  The loop over the items (lines 397 to 429). \<open>read_item\<close> is lines 398 to 404: the
  name, the category and the amount of the item, and the rule its category resolves to.
  It raises when the item is not a dictionary, when the amount cannot be converted, and
  when the category cannot be hashed, in this order.
\<close>

definition read_item ::
  "pylib \<Rightarrow> (string \<rightharpoonup> AuditRule) \<Rightarrow> json \<Rightarrow> exn + (json \<times> json \<times> rat \<times> AuditRule option)" where
  "read_item L rules_dict item =
     bindE (py_get item ''name'' (JStr [])) (\<lambda>item_name.
     bindE (py_get item ''category'' (JStr ''Others'')) (\<lambda>category.
     bindE (py_get item ''amount'' (JInt 0)) (\<lambda>a.
     bindE (py_float L a) (\<lambda>amount.
     bindE (resolve_rule rules_dict category) (\<lambda>rule.
       Inr (item_name, category, amount, rule))))))"

text \<open>
  Lines 406 to 429, on the state of the loop: the three lists it appends to,
  \<^verbatim>\<open>restricted_items\<close>, \<^verbatim>\<open>amount_violations\<close> and \<^verbatim>\<open>violations\<close>.
\<close>

type_synonym audit_state = "json list \<times> json list \<times> violation list"

definition check_item ::
  "pylib \<Rightarrow> (string \<rightharpoonup> AuditRule) \<Rightarrow> json \<Rightarrow> audit_state \<Rightarrow> exn + audit_state" where
  "check_item L rules_dict item st =
     (case st of (restricted_items, amount_violations, viols) \<Rightarrow>
      bindE (read_item L rules_dict item) (\<lambda>(item_name, category, amount, rule).
        case rule of
          None \<Rightarrow> Inr st
        | Some rule \<Rightarrow>
            if is_restricted rule then
              Inr (restricted_items @ [item_name], amount_violations,
                   viols @ [restricted_violation L item_name category])
            else if amount > max_limit rule then
              Inr (restricted_items, amount_violations @ [item_name],
                   viols @ [amount_violation L item_name category amount rule])
            else Inr st))"

fun check_items ::
  "pylib \<Rightarrow> (string \<rightharpoonup> AuditRule) \<Rightarrow> json list \<Rightarrow> audit_state \<Rightarrow> exn + audit_state" where
  "check_items L rules_dict [] st = Inr st"
| "check_items L rules_dict (item # items) st =
     bindE (check_item L rules_dict item st) (check_items L rules_dict items)"

text \<open>Lines 431 to 464: the decision, the summary and the result.\<close>

definition decide :: "pylib \<Rightarrow> audit_state \<Rightarrow> AuditResult" where
  "decide L st =
     (case st of (restricted_items, amount_violations, viols) \<Rightarrow>
      let has_restricted = (length restricted_items > 0);
          has_amount_violations = (length amount_violations > 0);
          (approval, color, score) =
            (if has_restricted then (''rejected'', ''red'', 0)
             else if has_amount_violations then (''warning'', ''yellow'', 50)
             else (''approved'', ''green'', 100));
          summ =
            (if viols = [] then ''All items approved - No policy violations found''
             else if has_restricted then
               ''Cannot approve - '' @ str_nat (length restricted_items) @ '' restricted items found''
             else
               ''Warning - '' @ str_nat (length amount_violations) @ '' items exceed category limits'')
      in \<lparr> is_compliant = (approval = ''approved''),
           total_violations = length viols,
           violations = viols,
           compliance_score = score,
           summary = summ,
           approval_status = Some approval,
           status_color = Some color \<rparr>)"

text \<open>
  The body of the \<^verbatim>\<open>try\<close> (lines 385 to 464). The database session is reduced to what
  \<^verbatim>\<open>db.query(AuditRule).all()\<close> returns or raises. \<^verbatim>\<open>total_amount\<close> is read and not used.
\<close>

type_synonym session = "exn + AuditRule list"

definition audit_body :: "pylib \<Rightarrow> session \<Rightarrow> string \<Rightarrow> exn + AuditResult" where
  "audit_body L db json_data =
     bindE (json_loads L json_data) (\<lambda>invoice_data.
     bindE (py_get invoice_data ''items'' (JArr [])) (\<lambda>items.
     bindE (py_get invoice_data ''total_amount'' (JInt 0)) (\<lambda>total_amount.
     bindE db (\<lambda>audit_rules.
     bindE (py_iter items) (\<lambda>item_list.
     bindE (check_items L (rules_dict_of audit_rules) item_list ([], [], [])) (\<lambda>st.
       Inr (decide L st)))))))"

text \<open>The handler of \<^verbatim>\<open>json.JSONDecodeError\<close> (lines 466 to 517).\<close>

definition invoice_keywords :: "string list" where
  "invoice_keywords =
     [''invoice'', ''bill'', ''receipt'', ''total'', ''amount'', ''price'', ''cost'', ''payment'']"

definition alcohol_keywords :: "string list" where
  "alcohol_keywords =
     [''whiskey'', ''scotch'', ''beer'', ''wine'', ''vodka'', ''rum'', ''gin'', ''alcohol'',
      ''liquor'', ''champagne'', ''cocktail'']"

definition keyword_fallback :: "string \<Rightarrow> AuditResult" where
  "keyword_fallback groq_response =
     (let content = lower groq_response;
          has_invoice_format = list_ex (\<lambda>keyword. sublist keyword content) invoice_keywords
      in if \<not> has_invoice_format then
           \<lparr> is_compliant = True, total_violations = 0, violations = [],
             compliance_score = 100,
             summary = ''Document processed - Not an invoice, no audit required'',
             approval_status = Some ''approved'', status_color = Some ''green'' \<rparr>
         else
           let found_alcohol = filter (\<lambda>kw. sublist kw content) alcohol_keywords
           in if found_alcohol \<noteq> [] then
                \<lparr> is_compliant = False, total_violations = 1,
                  violations =
                    [\<lparr> v_rule_name = ''Alcohol - Restricted Category'',
                       v_field_name = ''content'',
                       violation_type = ''restricted_item'',
                       v_severity = ''high'',
                       message = ''Document contains alcohol-related items: ''
                         @ join '', '' found_alcohol,
                       flagged_items = Some (map JStr found_alcohol) \<rparr>],
                  compliance_score = 0,
                  summary = ''Cannot approve - Alcohol items detected'',
                  approval_status = Some ''rejected'', status_color = Some ''red'' \<rparr>
              else
                \<lparr> is_compliant = True, total_violations = 0, violations = [],
                  compliance_score = 100,
                  summary = ''Document approved - No restricted items detected'',
                  approval_status = Some ''approved'', status_color = Some ''green'' \<rparr>)"

text \<open>The handler of every other exception (lines 518 to 532).\<close>

definition error_result :: "pylib \<Rightarrow> exn \<Rightarrow> AuditResult" where
  "error_result L e =
     \<lparr> is_compliant = False, total_violations = 1,
       violations =
         [\<lparr> v_rule_name = ''Audit Processing Error'',
            v_field_name = ''system'',
            violation_type = ''processing_error'',
            v_severity = ''high'',
            message = ''Error processing audit: '' @ str_exn L e,
            flagged_items = None \<rparr>],
       compliance_score = 0,
       summary = ''Audit processing failed'',
       approval_status = None, status_color = None \<rparr>"

text \<open>
  \<^verbatim>\<open>perform_audit\<close>: the \<^verbatim>\<open>try\<close> with its two handlers. The result type keeps the
  possibility of an exception that leaves the function. Every branch of the \<^verbatim>\<open>try\<close> and
  of its handlers returns, so the statements that follow it in the source (lines 533 to
  700) are never reached and have no part in the model.
\<close>

definition perform_audit :: "pylib \<Rightarrow> string \<Rightarrow> string \<Rightarrow> session \<Rightarrow> exn + AuditResult" where
  "perform_audit L groq_response json_data db =
     (case audit_body L db json_data of
        Inr result \<Rightarrow> Inr result
      | Inl JSONDecodeError \<Rightarrow> Inr (keyword_fallback groq_response)
      | Inl e \<Rightarrow> Inr (error_result L e))"

section \<open>What the claims say of one item\<close>



definition item_violations :: "pylib \<Rightarrow> (string \<rightharpoonup> AuditRule) \<Rightarrow> json \<Rightarrow> violation list" where
  "item_violations L rules_dict item =
     (case read_item L rules_dict item of
        Inr (item_name, cat, amount, Some rule) \<Rightarrow>
          if is_restricted rule then [restricted_violation L item_name cat]
          else if amount > max_limit rule then [amount_violation L item_name cat amount rule]
          else []
      | _ \<Rightarrow> [])"

definition item_reads :: "pylib \<Rightarrow> (string \<rightharpoonup> AuditRule) \<Rightarrow> json \<Rightarrow> bool" where
  "item_reads L rules_dict item = (case read_item L rules_dict item of Inr t \<Rightarrow> True | Inl e \<Rightarrow> False)"

section \<open>The policy evaluator: \<^verbatim>\<open>validate_against_policies\<close>\<close>

text \<open>
  A policy has the attributes the evaluator reads. \<open>severity\<close> is \<open>None\<close> when the policy
  object has no such attribute, which is when \<^verbatim>\<open>getattr(policy, 'severity', default)\<close>
  gives the default.
\<close>

record AuditPolicy =
  rule_name :: string
  rule_type :: string
  field_name :: string
  condition :: string
  expected_value :: "string option"
  severity :: "string option"
  is_active :: bool

definition getattr_severity :: "AuditPolicy \<Rightarrow> string \<Rightarrow> string" where
  "getattr_severity policy dflt = (case severity policy of None \<Rightarrow> dflt | Some s \<Rightarrow> s)"

text \<open>\<^verbatim>\<open>s.strip()\<close>, \<^verbatim>\<open>s.replace('_', ' ')\<close> and \<^verbatim>\<open>s.title()\<close> on ASCII text.\<close>

definition is_space :: "char \<Rightarrow> bool" where
  "is_space c = (let n = (of_char c :: nat) in (9 \<le> n \<and> n \<le> 13) \<or> (28 \<le> n \<and> n \<le> 32))"

definition strip :: "string \<Rightarrow> string" where
  "strip s = rev (dropWhile is_space (rev (dropWhile is_space s)))"

definition replace_underscores :: "string \<Rightarrow> string" where
  "replace_underscores s = map (\<lambda>c. if c = CHR ''_'' then CHR '' '' else c) s"

fun title_from :: "bool \<Rightarrow> string \<Rightarrow> string" where
  "title_from prev_cased [] = []"
| "title_from prev_cased (c # cs) =
     (if is_upper c \<or> is_lower c then
        (if prev_cased then lower_char c else upper_char c) # title_from True cs
      else c # title_from False cs)"

definition title :: "string \<Rightarrow> string" where
  "title s = title_from False s"

definition policy_violation :: "AuditPolicy \<Rightarrow> string \<Rightarrow> string \<Rightarrow> string \<Rightarrow> violation" where
  "policy_violation policy vtype dflt msg =
     \<lparr> v_rule_name = rule_name policy,
       v_field_name = field_name policy,
       violation_type = vtype,
       v_severity = getattr_severity policy dflt,
       message = msg,
       flagged_items = None \<rparr>"

text \<open>
  The body of the loop over the policies (lines 269 to 352), for an active policy: the
  violation it finds, if any. \<open>invoice_data\<close> is the dictionary of the extracted fields.

  The \<^verbatim>\<open>content_warning\<close> branch (lines 306 to 320) reads \<^verbatim>\<open>groq_response\<close>, which is
  neither a parameter nor a local variable of \<^verbatim>\<open>validate_against_policies\<close> nor a name
  of the module: the branch raises \<^verbatim>\<open>NameError\<close> at line 309, after line 308 has split
  the expected value (which raises when it is \<^verbatim>\<open>None\<close>). Lines 311 to 320 are never
  reached.

  In the \<^verbatim>\<open>amount_limit\<close> and \<^verbatim>\<open>date_range\<close> branches \<^verbatim>\<open>ValueError\<close> and \<^verbatim>\<open>TypeError\<close> are
  caught and the policy found not violated; \<^verbatim>\<open>OverflowError\<close> is not caught. The cutoff
  date of line 340 exists when it is between day 1 and day 3652059 (9999-12-31).
\<close>

definition check_policy ::
  "pylib \<Rightarrow> (string \<times> json) list \<Rightarrow> AuditPolicy \<Rightarrow> exn + violation option" where
  "check_policy L invoice_data policy =
     (let field_value = dict_get invoice_data (field_name policy) JNull in
      if rule_type policy = ''required_field'' then
        (if condition policy = ''exists'' \<and> \<not> truthy field_value then
           Inr (Some (policy_violation policy ''missing_field'' ''medium''
             (title (replace_underscores (field_name policy)) @ '' is required but missing'')))
         else Inr None)
      else if rule_type policy = ''amount_limit'' \<and> truthy field_value then
        (case py_float L field_value of
           Inl (FloatOverflow i) \<Rightarrow> Inl (FloatOverflow i)
         | Inl e \<Rightarrow> Inr None
         | Inr amount \<Rightarrow>
             (case expected_value policy of
                None \<Rightarrow> Inr None
              | Some ev \<Rightarrow>
                  (case float_str L ev of
                     None \<Rightarrow> Inr None
                   | Some limit \<Rightarrow>
                       if condition policy = ''max_value'' \<and> amount > limit then
                         Inr (Some (policy_violation policy ''amount_exceeded'' ''medium''
                           (''Amount $'' @ str_float L amount @ '' exceeds maximum limit of $''
                              @ str_float L limit)))
                       else if condition policy = ''min_value'' \<and> amount < limit then
                         Inr (Some (policy_violation policy ''amount_below_minimum'' ''medium''
                           (''Amount $'' @ str_float L amount @ '' is below minimum limit of $''
                              @ str_float L limit)))
                       else Inr None)))
      else if rule_type policy = ''content_warning'' then
        (if condition policy = ''contains_keywords'' then
           (case expected_value policy of
              None \<Rightarrow> Inl (NoAttribute JNull ''split'')
            | Some ev \<Rightarrow> Inl (NameError ''groq_response''))
         else Inr None)
      else if rule_type policy = ''format_check'' \<and> truthy field_value then
        (if condition policy = ''format_match'' then
           bindE (re_match L (expected_value policy) (str_val L field_value)) (\<lambda>matched.
             if \<not> matched then
               Inr (Some (policy_violation policy ''format_mismatch'' ''medium''
                 (title (replace_underscores (field_name policy)) @ '' format is invalid'')))
             else Inr None)
         else Inr None)
      else if rule_type policy = ''date_range'' \<and> truthy field_value then
        (if condition policy = ''within_days'' then
           (case expected_value policy of
              None \<Rightarrow> Inr None
            | Some ev \<Rightarrow>
                (case int_str L ev of
                   None \<Rightarrow> Inr None
                 | Some days_limit \<Rightarrow>
                     if 1 \<le> now_ordinal L - days_limit \<and> now_ordinal L - days_limit \<le> 3652059 then
                       (if sublist ''old'' (lower (str_val L field_value))
                           \<or> sublist ''expired'' (lower (str_val L field_value)) then
                          Inr (Some (policy_violation policy ''date_out_of_range'' ''medium''
                            ''Invoice date appears to be outside acceptable range''))
                        else Inr None)
                     else Inl DateOverflow))
         else Inr None)
      else Inr None)"

text \<open>The loop over the policies (lines 265 to 355): inactive policies are skipped.\<close>

fun check_policies ::
  "pylib \<Rightarrow> (string \<times> json) list \<Rightarrow> AuditPolicy list \<Rightarrow> violation list \<Rightarrow> exn + violation list" where
  "check_policies L invoice_data [] viols = Inr viols"
| "check_policies L invoice_data (policy # policies) viols =
     (if \<not> is_active policy then check_policies L invoice_data policies viols
      else
        bindE (check_policy L invoice_data policy) (\<lambda>v.
          check_policies L invoice_data policies
            (case v of None \<Rightarrow> viols | Some v \<Rightarrow> viols @ [v])))"

text \<open>
  \<^verbatim>\<open>round(x, 2)\<close>: to the nearest multiple of 1/100, a tie to the even one.
\<close>

definition round_half_even :: "rat \<Rightarrow> int" where
  "round_half_even x =
     (let f = \<lfloor>x\<rfloor>; d = x - of_int f in
      if d < 1 / 2 then f else if d > 1 / 2 then f + 1 else if even f then f else f + 1)"

definition round2 :: "rat \<Rightarrow> rat" where
  "round2 x = of_int (round_half_even (x * 100)) / 100"

text \<open>Lines 357 to 376: the score, the summary and the result.\<close>

definition policy_result :: "nat \<Rightarrow> violation list \<Rightarrow> AuditResult" where
  "policy_result total_rules viols =
     (let warnings = filter (\<lambda>v. v_severity v = ''warning'') viols;
          errors = filter (\<lambda>v. v_severity v \<in> set [''medium'', ''high'']) viols;
          score =
            (if total_rules > 0 then
               max 0 ((of_nat total_rules - of_nat (length errors)) / of_nat total_rules * 100)
             else 100);
          summ =
            (if length viols = 0 then ''Invoice is fully compliant with all audit policies''
             else
               let warning_text =
                 (if warnings \<noteq> [] then '', '' @ str_nat (length warnings) @ '' warnings'' else [])
               in ''Invoice has '' @ str_nat (length errors) @ '' policy violations'' @ warning_text
                    @ '' out of '' @ str_nat total_rules @ '' rules checked'')
      in \<lparr> is_compliant = (length viols = 0),
           total_violations = length viols,
           violations = viols,
           compliance_score = round2 score,
           summary = summ,
           approval_status = None,
           status_color = None \<rparr>)"

definition validate_against_policies ::
  "pylib \<Rightarrow> (string \<times> json) list \<Rightarrow> AuditPolicy list \<Rightarrow> exn + AuditResult" where
  "validate_against_policies L invoice_data policies =
     (let total_rules = length (filter is_active policies) in
      bindE (check_policies L invoice_data policies []) (\<lambda>viols.
        Inr (policy_result total_rules viols)))"

section \<open>The field extractor: \<^verbatim>\<open>extract_invoice_data\<close>\<close>

text \<open>Shorthands for the syntax trees, and the patterns of lines 190 to 237.\<close>

definition ws :: "atom list" where
  "ws = [Space]"

definition digit :: "atom list" where
  "digit = [Rng CHR ''0'' CHR ''9'']"

definition star :: "atom list \<Rightarrow> rx" where
  "star cls = Many cls 0 None"

definition plus :: "atom list \<Rightarrow> rx" where
  "plus cls = Many cls 1 None"

definition opt :: "char \<Rightarrow> rx" where
  "opt c = Many [Ch c] 0 (Some 1)"

fun seq :: "rx list \<Rightarrow> rx" where
  "seq [] = Lit []"
| "seq [r] = r"
| "seq (r # rs) = Cat r (seq rs)"

fun alts :: "rx list \<Rightarrow> rx" where
  "alts [] = Lit []"
| "alts [r] = r"
| "alts (r # rs) = Or r (alts rs)"

definition number_tail :: rx where
  "number_tail =
     seq [star ws, alts [Lit ''number'', Lit ''#'', seq [Lit ''no'', opt CHR ''.'']],
          star ws, opt CHR '':'', star ws,
          Grp (plus [Rng CHR ''A'' CHR ''Z'', Rng CHR ''0'' CHR ''9'', Ch CHR ''-''])]"

definition invoice_patterns :: "rx list" where
  "invoice_patterns =
     [Cat (Lit ''invoice'') number_tail,
      Cat (Lit ''inv'') number_tail,
      Cat (Lit ''bill'') number_tail]"

definition amount_digits :: rx where
  "amount_digits =
     Grp (seq [plus [Rng CHR ''0'' CHR ''9'', Ch CHR '',''], opt CHR ''.'', star digit])"

definition amount_patterns :: "rx list" where
  "amount_patterns =
     [seq [alts [Lit ''total'', Lit ''amount'', Lit ''sum''], star ws, opt CHR '':'', star ws,
           opt CHR ''$'', amount_digits],
      seq [Lit ''$'', amount_digits],
      seq [amount_digits, star ws,
           alts [seq [Lit ''dollar'', opt CHR ''s''], Lit ''usd'', Lit ''$'']]]"

definition date_digits :: rx where
  "date_digits =
     Grp (seq [Many digit 1 (Some 2), Many [Ch CHR ''/'', Ch CHR ''-''] 1 (Some 1),
               Many digit 1 (Some 2), Many [Ch CHR ''/'', Ch CHR ''-''] 1 (Some 1),
               Many digit 2 (Some 4)])"

definition date_patterns :: "rx list" where
  "date_patterns =
     [seq [Lit ''date'', star ws, opt CHR '':'', star ws, date_digits],
      date_digits,
      Grp (seq [plus [Rng CHR ''A'' CHR ''Z'', Rng CHR ''a'' CHR ''z''], Lit '' '',
                Many digit 1 (Some 2), opt CHR '','', Lit '' '', Many digit 4 (Some 4)])]"

definition vendor_tail :: rx where
  "vendor_tail =
     seq [Grp (Few [Rng CHR ''A'' CHR ''Z'', Rng CHR ''a'' CHR ''z'', Space, Ch CHR ''&'',
                    Ch CHR ''.'', Ch CHR '',''] 1),
          alts [Lit [CHR 0x0A], Eos, Many digit 1 (Some 1)]]"

definition vendor_patterns :: "rx list" where
  "vendor_patterns =
     [seq [alts [Lit ''from'', Lit ''vendor'', Lit ''company'', Lit ''business''],
           star ws, opt CHR '':'', star ws, vendor_tail],
      seq [Lit ''bill'', plus ws, Lit ''from'', plus ws, vendor_tail],
      seq [Lit ''invoice'', plus ws, Lit ''from'', plus ws, vendor_tail]]"

definition business_indicators :: "string list" where
  "business_indicators =
     [''company'', ''corp'', ''inc'', ''ltd'', ''llc'', ''store'', ''shop'', ''restaurant'',
      ''cafe'', ''hotel'', ''market'', ''business'', ''enterprise'', ''services'', ''solutions'']"

text \<open>
  The loops of the invoice number and of the date (lines 196 to 200, 226 to 230): group 1
  of the first pattern that matches.
\<close>

fun first_match :: "pylib \<Rightarrow> rx list \<Rightarrow> string \<Rightarrow> string option" where
  "first_match L [] groq_response = None"
| "first_match L (pattern # patterns) groq_response =
     (case re_search L pattern groq_response of
        Some g \<Rightarrow> Some g
      | None \<Rightarrow> first_match L patterns groq_response)"

text \<open>
  The loop of the amount (lines 209 to 217): the commas are taken out of group 1 of a
  match; when \<^verbatim>\<open>float\<close> raises \<^verbatim>\<open>ValueError\<close> the loop goes on with the next pattern.
\<close>

definition remove_commas :: "string \<Rightarrow> string" where
  "remove_commas s = filter (\<lambda>c. c \<noteq> CHR '','') s"

fun amount_loop :: "pylib \<Rightarrow> rx list \<Rightarrow> string \<Rightarrow> rat option" where
  "amount_loop L [] groq_response = None"
| "amount_loop L (pattern # patterns) groq_response =
     (case re_search L pattern groq_response of
        None \<Rightarrow> amount_loop L patterns groq_response
      | Some g \<Rightarrow>
          (case float_str L (remove_commas g) of
             Some amount \<Rightarrow> Some amount
           | None \<Rightarrow> amount_loop L patterns groq_response))"

text \<open>
  The loop of the vendor (lines 244 to 250): a match whose stripped group has at most two
  characters does not end the loop.
\<close>

fun vendor_loop :: "pylib \<Rightarrow> rx list \<Rightarrow> string \<Rightarrow> string option" where
  "vendor_loop L [] groq_response = None"
| "vendor_loop L (pattern # patterns) groq_response =
     (case re_search L pattern groq_response of
        None \<Rightarrow> vendor_loop L patterns groq_response
      | Some g \<Rightarrow>
          (let vendor_name = strip g in
           if length vendor_name > 2 then Some vendor_name
           else vendor_loop L patterns groq_response))"

text \<open>\<^verbatim>\<open>d[k] = v\<close> on a dictionary that does not have the key yet.\<close>

definition set_key :: "(string \<times> json) list \<Rightarrow> string \<Rightarrow> json option \<Rightarrow> (string \<times> json) list" where
  "set_key d k v = (case v of None \<Rightarrow> d | Some x \<Rightarrow> d @ [(k, x)])"

definition extract_invoice_data :: "pylib \<Rightarrow> string \<Rightarrow> (string \<times> json) list" where
  "extract_invoice_data L groq_response =
     (let invoice_data = [];
          invoice_data = set_key invoice_data ''invoice_number''
            (map_option JStr (first_match L invoice_patterns groq_response));
          invoice_data = set_key invoice_data ''amount''
            (map_option JNum (amount_loop L amount_patterns groq_response));
          invoice_data = set_key invoice_data ''date''
            (map_option JStr (first_match L date_patterns groq_response));
          content_lower = lower groq_response;
          invoice_data = set_key invoice_data ''vendor_name''
            (map_option JStr (vendor_loop L vendor_patterns groq_response))
      in if map_of invoice_data ''vendor_name'' = None
            \<and> list_ex (\<lambda>indicator. sublist indicator content_lower) business_indicators
         then invoice_data @ [(''vendor_name'', JStr ''Business entity detected'')]
         else invoice_data)"

text \<open>
  \<^verbatim>\<open>perform_basic_audit\<close> (lines 733 to 744); the session is reduced to the rows of the
  policy table.
\<close>

definition perform_basic_audit :: "pylib \<Rightarrow> string \<Rightarrow> AuditPolicy list \<Rightarrow> exn + AuditResult" where
  "perform_basic_audit L groq_response db_policies =
     (let policies = filter is_active db_policies;
          invoice_data = extract_invoice_data L groq_response
      in validate_against_policies L invoice_data policies)"

section \<open>A library for the examples\<close>

text \<open>
  The theorems below hold for every library. The examples are evaluated with the library
  of this section, which computes what Python computes on the arguments that occur in
  them: a backtracking matcher for the syntax trees, \<^verbatim>\<open>float\<close> and \<^verbatim>\<open>int\<close> on plain
  decimal text, \<^verbatim>\<open>str\<close> of strings and numbers with a short decimal expansion (a list or
  a dictionary is not rendered), the messages of the exceptions, and \<^verbatim>\<open>json.loads\<close> on
  the documents listed in \<open>example_documents\<close> (any other text is taken as not being
  JSON).
\<close>

subsection \<open>Matching\<close>

definition in_range :: "char \<Rightarrow> char \<Rightarrow> char \<Rightarrow> bool" where
  "in_range a b c = ((of_char a :: nat) \<le> of_char c \<and> (of_char c :: nat) \<le> of_char b)"

fun atom_match :: "bool \<Rightarrow> atom \<Rightarrow> char \<Rightarrow> bool" where
  "atom_match ic (Ch x) c = (c = x \<or> ic \<and> lower_char c = lower_char x)"
| "atom_match ic (Rng a b) c =
     (in_range a b c \<or> ic \<and> (in_range a b (lower_char c) \<or> in_range a b (upper_char c)))"
| "atom_match ic Space c = is_space c"

definition cls_match :: "bool \<Rightarrow> atom list \<Rightarrow> char \<Rightarrow> bool" where
  "cls_match ic cls c = list_ex (\<lambda>a. atom_match ic a c) cls"

text \<open>
  \<open>rx_run ic r (s, g)\<close> are the ways \<open>r\<close> matches at the start of \<open>s\<close>, in the order a
  backtracking matcher tries them: what is left of \<open>s\<close> after the match, and group 1.
  \<open>ic\<close> is \<^verbatim>\<open>re.IGNORECASE\<close>.
\<close>

fun rx_run :: "bool \<Rightarrow> rx \<Rightarrow> string \<times> string option \<Rightarrow> (string \<times> string option) list" where
  "rx_run ic (Lit l) (s, g) =
     (if length l \<le> length s
         \<and> (if ic then lower (take (length l) s) = lower l else take (length l) s = l)
      then [(drop (length l) s, g)] else [])"
| "rx_run ic (Many cls lo hi) (s, g) =
     (let n = length (takeWhile (cls_match ic cls) s);
          m = (case hi of None \<Rightarrow> n | Some h \<Rightarrow> min n h)
      in map (\<lambda>k. (drop k s, g)) (rev [lo..<Suc m]))"
| "rx_run ic (Few cls lo) (s, g) =
     (let n = length (takeWhile (cls_match ic cls) s)
      in map (\<lambda>k. (drop k s, g)) [lo..<Suc n])"
| "rx_run ic (Cat a b) st = concat (map (rx_run ic b) (rx_run ic a st))"
| "rx_run ic (Or a b) st = rx_run ic a st @ rx_run ic b st"
| "rx_run ic (Grp a) (s, g) =
     map (\<lambda>(s', g'). (s', Some (take (length s - length s') s))) (rx_run ic a (s, g))"
| "rx_run ic Eos (s, g) = (if s = [] \<or> s = [CHR 0x0A] then [(s, g)] else [])"

text \<open>\<^verbatim>\<open>re.search\<close>: the first match at the leftmost position that has one.\<close>

fun rx_search :: "bool \<Rightarrow> rx \<Rightarrow> string \<Rightarrow> string option" where
  "rx_search ic r [] = (case rx_run ic r ([], None) of [] \<Rightarrow> None | (s', g) # rest \<Rightarrow> g)"
| "rx_search ic r (c # cs) =
     (case rx_run ic r (c # cs, None) of [] \<Rightarrow> rx_search ic r cs | (s', g) # rest \<Rightarrow> g)"

text \<open>\<^verbatim>\<open>re.match\<close>, for the one pattern of the default policies.\<close>

definition example_re_match :: "string option \<Rightarrow> string \<Rightarrow> exn + bool" where
  "example_re_match pattern s =
     (case pattern of
        None \<Rightarrow> Inl (LibraryError ''first argument must be string or compiled pattern'')
      | Some p \<Rightarrow>
          if p = ''^[A-Z0-9-]+$'' then
            Inr (rx_run False
                   (Cat (plus [Rng CHR ''A'' CHR ''Z'', Rng CHR ''0'' CHR ''9'', Ch CHR ''-'']) Eos)
                   (s, None) \<noteq> [])
          else Inl (LibraryError ''pattern not known to the example library''))"

subsection \<open>Numbers and text\<close>

definition is_digit :: "char \<Rightarrow> bool" where
  "is_digit c = in_range CHR ''0'' CHR ''9'' c"

definition digit_val :: "char \<Rightarrow> int" where
  "digit_val c = of_char c - 48"

definition int_of_digits :: "string \<Rightarrow> int" where
  "int_of_digits ds = foldl (\<lambda>n c. 10 * n + digit_val c) 0 ds"

text \<open>An optional sign, digits, and an optional point with more digits; one digit at least.\<close>

definition unsigned_decimal :: "string \<Rightarrow> rat option" where
  "unsigned_decimal s =
     (let ip = takeWhile is_digit s;
          rest = dropWhile is_digit s;
          fp = (case rest of [] \<Rightarrow> [] | c # cs \<Rightarrow> cs)
      in if (rest = [] \<or> hd rest = CHR ''.'') \<and> list_all is_digit fp \<and> ip @ fp \<noteq> [] then
           Some (of_int (int_of_digits ip) + of_int (int_of_digits fp) / 10 ^ length fp)
         else None)"

definition example_float :: "string \<Rightarrow> rat option" where
  "example_float s =
     (case strip s of
        [] \<Rightarrow> None
      | c # cs \<Rightarrow>
          if c = CHR ''-'' then map_option uminus (unsigned_decimal cs)
          else if c = CHR ''+'' then unsigned_decimal cs
          else unsigned_decimal (c # cs))"

definition unsigned_int :: "string \<Rightarrow> int option" where
  "unsigned_int s = (if s \<noteq> [] \<and> list_all is_digit s then Some (int_of_digits s) else None)"

definition example_int :: "string \<Rightarrow> int option" where
  "example_int s =
     (case strip s of
        [] \<Rightarrow> None
      | c # cs \<Rightarrow>
          if c = CHR ''-'' then map_option uminus (unsigned_int cs)
          else if c = CHR ''+'' then unsigned_int cs
          else unsigned_int (c # cs))"

definition str_int :: "int \<Rightarrow> string" where
  "str_int i = (if i < 0 then ''-'' @ str_pos (- i) else str_pos i)"

fun frac_digits :: "nat \<Rightarrow> rat \<Rightarrow> string" where
  "frac_digits 0 x = []"
| "frac_digits (Suc n) x =
     (if x = 0 then []
      else let d = \<lfloor>x * 10\<rfloor> in char_of (48 + d) # frac_digits n (x * 10 - of_int d))"

definition example_str_float :: "rat \<Rightarrow> string" where
  "example_str_float r =
     (let a = \<bar>r\<bar>; ip = \<lfloor>a\<rfloor>; fp = a - of_int ip in
      (if r < 0 then ''-'' else []) @ str_pos ip @ ''.''
        @ (if fp = 0 then ''0'' else frac_digits 17 fp))"

fun example_str :: "json \<Rightarrow> string" where
  "example_str JNull = ''None''"
| "example_str (JBool b) = (if b then ''True'' else ''False'')"
| "example_str (JInt i) = str_int i"
| "example_str (JNum r) = example_str_float r"
| "example_str (JStr s) = s"
| "example_str (JArr xs) = ''[...]''"
| "example_str (JObj d) = ''{...}''"

fun type_name :: "json \<Rightarrow> string" where
  "type_name JNull = ''NoneType''"
| "type_name (JBool b) = ''bool''"
| "type_name (JInt i) = ''int''"
| "type_name (JNum r) = ''float''"
| "type_name (JStr s) = ''str''"
| "type_name (JArr xs) = ''list''"
| "type_name (JObj d) = ''dict''"

definition quoted :: "string \<Rightarrow> string" where
  "quoted s = [CHR 0x27] @ s @ [CHR 0x27]"

fun example_str_exn :: "exn \<Rightarrow> string" where
  "example_str_exn JSONDecodeError = ''Expecting value: line 1 column 1 (char 0)''"
| "example_str_exn (NoAttribute v a) =
     quoted (type_name v) @ '' object has no attribute '' @ quoted a"
| "example_str_exn (NotIterable v) = quoted (type_name v) @ '' object is not iterable''"
| "example_str_exn (FloatTypeError v) =
     ''float() argument must be a string or a real number, not '' @ quoted (type_name v)"
| "example_str_exn (FloatValueError s) = ''could not convert string to float: '' @ quoted s"
| "example_str_exn (Unhashable v) = ''unhashable type: '' @ quoted (type_name v)"
| "example_str_exn (NameError n) = ''name '' @ quoted n @ '' is not defined''"
| "example_str_exn (FloatOverflow i) = ''int too large to convert to float''"
| "example_str_exn DateOverflow = ''date value out of range''"
| "example_str_exn (LibraryError d) = d"

subsection \<open>Documents\<close>

text \<open>
  The documents of \<^verbatim>\<open>test_audit.py\<close> as \<^verbatim>\<open>json.dumps\<close> writes them, and variations of them,
  with the values \<^verbatim>\<open>json.loads\<close> gives for them.
\<close>

definition line_item :: "string \<Rightarrow> string \<Rightarrow> json \<Rightarrow> json" where
  "line_item name cat amount =
     JObj [(''name'', JStr name), (''category'', JStr cat), (''amount'', amount)]"

definition doc_approved :: string where
  \<open>doc_approved = ''{"items": [{"name": "Business Lunch", "category": "Food", "amount": 800.0}, {"name": "Office Supplies", "category": "Office Supplies", "amount": 1200.0}], "total_amount": 2000.0}''\<close>

definition doc_restricted :: string where
  \<open>doc_restricted = ''{"items": [{"name": "Wine Bottle", "category": "Alcohol", "amount": 500.0}, {"name": "Business Lunch", "category": "Food", "amount": 800.0}], "total_amount": 1300.0}''\<close>

definition doc_exceeded :: string where
  \<open>doc_exceeded = ''{"items": [{"name": "Expensive Dinner", "category": "Food", "amount": 2000.0}], "total_amount": 2000.0}''\<close>

definition doc_exceeded_total :: string where
  \<open>doc_exceeded_total = ''{"items": [{"name": "Expensive Dinner", "category": "Food", "amount": 2000.0}], "total_amount": 1.0}''\<close>

definition doc_bad_amount :: string where
  \<open>doc_bad_amount = ''{"items": [{"name": "Business Lunch", "category": "Food", "amount": "abc"}], "total_amount": 800.0}''\<close>

definition doc_no_amount :: string where
  \<open>doc_no_amount = ''{"items": [{"name": "Business Lunch", "category": "Food"}], "total_amount": 800.0}''\<close>

definition doc_list :: string where
  \<open>doc_list = ''[]''\<close>


text \<open>Two more answers of \<^verbatim>\<open>test_image_audit.py\<close>, for which it expects a rejection.\<close>

definition spa_text :: string where
  "spa_text = ''Receipt from luxury spa showing massage services and leisure activities. Total $200 for spa treatment.''"

definition jewelry_text :: string where
  "jewelry_text = ''Invoice from jewelry store showing diamond ring purchase. Luxury item cost $5000 from high-end boutique.''"

definition items_approved :: "json list" where
  "items_approved =
     [line_item ''Business Lunch'' ''Food'' (JNum 800),
      line_item ''Office Supplies'' ''Office Supplies'' (JNum 1200)]"

definition items_restricted :: "json list" where
  "items_restricted =
     [line_item ''Wine Bottle'' ''Alcohol'' (JNum 500),
      line_item ''Business Lunch'' ''Food'' (JNum 800)]"

definition items_exceeded :: "json list" where
  "items_exceeded = [line_item ''Expensive Dinner'' ''Food'' (JNum 2000)]"

definition items_bad_amount :: "json list" where
  "items_bad_amount = [line_item ''Business Lunch'' ''Food'' (JStr ''abc'')]"

definition items_no_amount :: "json list" where
  "items_no_amount = [JObj [(''name'', JStr ''Business Lunch''), (''category'', JStr ''Food'')]]"

definition example_documents :: "(string \<times> json) list" where
  "example_documents =
     [(doc_approved, JObj [(''items'', JArr items_approved), (''total_amount'', JNum 2000)]),
      (doc_restricted, JObj [(''items'', JArr items_restricted), (''total_amount'', JNum 1300)]),
      (doc_exceeded, JObj [(''items'', JArr items_exceeded), (''total_amount'', JNum 2000)]),
      (doc_exceeded_total, JObj [(''items'', JArr items_exceeded), (''total_amount'', JNum 1)]),
      (doc_bad_amount, JObj [(''items'', JArr items_bad_amount), (''total_amount'', JNum 800)]),
      (doc_no_amount, JObj [(''items'', JArr items_no_amount), (''total_amount'', JNum 800)]),
      (doc_list, JArr [])]"

definition example_loads :: "string \<Rightarrow> exn + json" where
  "example_loads s = (case map_of example_documents s of None \<Rightarrow> Inl JSONDecodeError | Some v \<Rightarrow> Inr v)"

definition example_lib :: pylib where
  "example_lib =
     \<lparr> json_loads = example_loads,
       float_str = example_float,
       int_str = example_int,
       str_val = example_str,
       str_float = example_str_float,
       str_exn = example_str_exn,
       re_search = rx_search True,
       re_match = example_re_match,
       now_ordinal = 739266 \<rparr>"

subsection \<open>The default rules and policies\<close>

text \<open>The rows \<^verbatim>\<open>create_default_audit_rules\<close> writes (lines 12 to 21).\<close>

definition default_rules :: "AuditRule list" where
  "default_rules =
     [\<lparr> category = ''Food'', max_limit = 1500, is_restricted = False,
         description = ''Per meal allowance for employees.'' \<rparr>,
      \<lparr> category = ''Travel'', max_limit = 10000, is_restricted = False,
         description = ''Inter-city travel and hotel stays.'' \<rparr>,
      \<lparr> category = ''Utility'', max_limit = 5000, is_restricted = False,
         description = ''Internet, electricity, and phone bills.'' \<rparr>,
      \<lparr> category = ''Office Supplies'', max_limit = 3000, is_restricted = False,
         description = ''Stationery and small equipment.'' \<rparr>,
      \<lparr> category = ''Alcohol'', max_limit = 0, is_restricted = True,
         description = ''Strictly prohibited for reimbursement.'' \<rparr>,
      \<lparr> category = ''Entertainment'', max_limit = 0, is_restricted = True,
         description = ''Personal movies, spas, or leisure activities.'' \<rparr>,
      \<lparr> category = ''Jewelry'', max_limit = 0, is_restricted = True,
         description = ''High-risk personal luxury items.'' \<rparr>,
      \<lparr> category = ''Others'', max_limit = 1000, is_restricted = False,
         description = ''General catch-all category for small items.'' \<rparr>]"

text \<open>
  Rows of \<^verbatim>\<open>create_default_audit_policies\<close> (lines 34 to 129): the four required fields,
  the two amount limits, the format of the invoice number and the first content warning.
  A row without a severity gets \<^verbatim>\<open>'medium'\<close> (lines 127 to 129).
\<close>

definition policy :: "string \<Rightarrow> string \<Rightarrow> string \<Rightarrow> string \<Rightarrow> string option \<Rightarrow> string \<Rightarrow> AuditPolicy" where
  "policy name type field cond expected sev =
     \<lparr> rule_name = name, rule_type = type, field_name = field, condition = cond,
       expected_value = expected, severity = Some sev, is_active = True \<rparr>"

definition field_policies :: "AuditPolicy list" where
  "field_policies =
     [policy ''Invoice Number Required'' ''required_field'' ''invoice_number'' ''exists'' None ''medium'',
      policy ''Amount Required'' ''required_field'' ''amount'' ''exists'' None ''medium'',
      policy ''Date Required'' ''required_field'' ''date'' ''exists'' None ''medium'',
      policy ''Vendor Name Required'' ''required_field'' ''vendor_name'' ''exists'' None ''medium'',
      policy ''Maximum Amount Limit'' ''amount_limit'' ''amount'' ''max_value'' (Some ''10000'') ''medium'',
      policy ''Minimum Amount Limit'' ''amount_limit'' ''amount'' ''min_value'' (Some ''1'') ''medium'',
      policy ''Invoice Number Format'' ''format_check'' ''invoice_number'' ''format_match''
        (Some ''^[A-Z0-9-]+$'') ''medium'']"

definition alcohol_policy :: AuditPolicy where
  "alcohol_policy =
     policy ''Alcohol Content Warning'' ''content_warning'' ''content'' ''contains_keywords''
       (Some ''alcohol,beer,wine,liquor,vodka,whiskey,rum,gin,champagne,cocktail,bar,pub,brewery,distillery'')
       ''warning''"

subsection \<open>The lists of the loop\<close>

text \<open>
  What the loop over the items has appended to \<^verbatim>\<open>restricted_items\<close> and to
  \<^verbatim>\<open>amount_violations\<close> when every item was read: the names of the restricted items, and
  the names of the items that are not restricted and exceed their limit.
\<close>

definition restricted_names :: "pylib \<Rightarrow> (string \<rightharpoonup> AuditRule) \<Rightarrow> json list \<Rightarrow> json list" where
  "restricted_names L rd items =
     concat (map (\<lambda>item.
       case read_item L rd item of
         Inr (n, c, a, Some rule) \<Rightarrow> if is_restricted rule then [n] else []
       | _ \<Rightarrow> []) items)"

definition exceeding_names :: "pylib \<Rightarrow> (string \<rightharpoonup> AuditRule) \<Rightarrow> json list \<Rightarrow> json list" where
  "exceeding_names L rd items =
     concat (map (\<lambda>item.
       case read_item L rd item of
         Inr (n, c, a, Some rule) \<Rightarrow>
           if \<not> is_restricted rule \<and> a > max_limit rule then [n] else []
       | _ \<Rightarrow> []) items)"

subsection \<open>One pattern of the amount\<close>

text \<open>
  What one turn of the loop of the amount (lines 210 to 217) finds with one pattern: the
  float of group 1 without its commas, or nothing when the pattern does not match or
  \<^verbatim>\<open>float\<close> raises \<^verbatim>\<open>ValueError\<close>.
\<close>

definition amount_try :: "pylib \<Rightarrow> rx \<Rightarrow> string \<Rightarrow> rat option" where
  "amount_try L pattern groq_response =
     (case re_search L pattern groq_response of
        None \<Rightarrow> None
      | Some g \<Rightarrow> float_str L (remove_commas g))"

section \<open>The category audit decides by precedence\<close>

lemma rules_dict_of_snoc:
  "rules_dict_of (rules @ [rule]) = (rules_dict_of rules)(category rule \<mapsto> rule)"
  by (simp add: rules_dict_of_def)

text \<open>
  Property X2. The dictionary of the rules gives, for a category, the last rule of the
  list that has this category: a later row replaces an earlier one.
\<close>

theorem rules_dict_of_last:
  "rules_dict_of rules c =
     (if filter (\<lambda>rule. category rule = c) rules = [] then None
      else Some (last (filter (\<lambda>rule. category rule = c) rules)))"
proof (induction rules rule: rev_induct)
  case Nil
  show ?case by (simp add: rules_dict_of_def)
next
  case (snoc rule rules)
  then show ?case
    by (simp add: rules_dict_of_snoc)
qed


text \<open>
  A line item with a name, a category that is a string and an amount that is a float is
  read, whatever the rules are.
\<close>

lemma line_item_reads: "item_reads L rd (line_item name cat (JNum a))"
  by (simp add: item_reads_def read_item_def line_item_def dict_get_def bindE_def
      resolve_rule_def)

lemma check_item_reads:
  assumes "item_reads L rd item"
  shows "check_item L rd item (ri, av, vs) =
     Inr (ri @ restricted_names L rd [item], av @ exceeding_names L rd [item],
          vs @ item_violations L rd item)"
  using assms
  by (auto simp: check_item_def item_reads_def restricted_names_def exceeding_names_def
      item_violations_def bindE_def split: sum.splits option.splits prod.splits)

lemma check_items_reads:
  assumes "list_all (item_reads L rd) items"
  shows "check_items L rd items (ri, av, vs) =
     Inr (ri @ restricted_names L rd items, av @ exceeding_names L rd items,
          vs @ concat (map (item_violations L rd) items))"
  using assms
proof (induction items arbitrary: ri av vs)
  case Nil
  then show ?case by (simp add: restricted_names_def exceeding_names_def)
next
  case (Cons item items)
  then show ?case
    by (simp add: check_item_reads bindE_def)
       (simp add: restricted_names_def exceeding_names_def)
qed







section \<open>The keyword fallback\<close>

lemma perform_audit_cases:
  "perform_audit L groq_response json_data db =
     (case audit_body L db json_data of
        Inr result \<Rightarrow> Inr result
      | Inl e \<Rightarrow> if e = JSONDecodeError then Inr (keyword_fallback groq_response)
                 else Inr (error_result L e))"
  by (simp add: perform_audit_def split: sum.splits exn.splits)



text \<open>
  A keyword is found in the lowered text exactly when some piece of the text itself is
  the keyword up to case.
\<close>

lemma sublist_map_iff:
  "sublist kw (map f text) \<longleftrightarrow> (\<exists>u. sublist u text \<and> map f u = kw)"
proof
  assume "sublist kw (map f text)"
  then obtain ps ss where eq: "map f text = ps @ kw @ ss" by (auto simp: sublist_def)
  let ?u = "take (length kw) (drop (length ps) text)"
  have "map f ?u = take (length kw) (drop (length ps) (map f text))"
    by (simp add: take_map drop_map)
  also have "\<dots> = kw" by (simp add: eq)
  finally have 1: "map f ?u = kw" .
  have "text = take (length ps) text @ ?u @ drop (length kw) (drop (length ps) text)"
    by (simp only: append_take_drop_id)
  then have "sublist ?u text" unfolding sublist_def by blast
  with 1 show "\<exists>u. sublist u text \<and> map f u = kw" by blast
next
  assume "\<exists>u. sublist u text \<and> map f u = kw"
  then obtain u ps ss where "text = ps @ u @ ss" "map f u = kw"
    by (auto simp: sublist_def)
  then have "map f text = map f ps @ kw @ map f ss" by auto
  then show "sublist kw (map f text)" unfolding sublist_def by blast
qed

lemma sublist_lower_iff:
  "sublist kw (lower text) \<longleftrightarrow> (\<exists>u. sublist u text \<and> lower u = kw)"
  unfolding lower_def by (rule sublist_map_iff)



section \<open>The results of every path\<close>

lemma audit_body_decide:
  "audit_body L db json_data = Inr result \<Longrightarrow> \<exists>st. result = decide L st"
  by (auto simp: audit_body_def bindE_def split: sum.splits)

lemma decide_total: "total_violations (decide L st) = length (violations (decide L st))"
  by (simp add: decide_def Let_def split: prod.splits)

lemma decide_compliant:
  "is_compliant (decide L st) = (approval_status (decide L st) = Some ''approved'')"
  by (simp add: decide_def Let_def split: prod.splits)

lemma keyword_fallback_total:
  "total_violations (keyword_fallback g) = length (violations (keyword_fallback g))"
  by (simp add: keyword_fallback_def Let_def)

lemma keyword_fallback_compliant:
  "is_compliant (keyword_fallback g) = (approval_status (keyword_fallback g) = Some ''approved'')"
  by (simp add: keyword_fallback_def Let_def)

lemma policy_result_total:
  "total_violations (policy_result n vs) = length (violations (policy_result n vs))"
  by (simp add: policy_result_def Let_def)

lemma validate_policy_result:
  "validate_against_policies L invoice_data policies = Inr result \<Longrightarrow>
   \<exists>viols. check_policies L invoice_data policies [] = Inr viols
     \<and> result = policy_result (length (filter is_active policies)) viols"
  by (auto simp: validate_against_policies_def bindE_def Let_def split: sum.splits)

text \<open>
  Claim C3. \<^verbatim>\<open>perform_audit\<close> returns a result for every text, every JSON text and every
  state of the database: no exception leaves it. When the body of its \<^verbatim>\<open>try\<close> raises an
  exception \<open>e\<close> other than \<^verbatim>\<open>JSONDecodeError\<close>, the result is not compliant, has exactly
  one violation, of type \<^verbatim>\<open>processing_error\<close> and severity high, whose message carries
  \<^verbatim>\<open>str(e)\<close>, has score 0 and has neither an approval status nor a status colour.
\<close>

theorem perform_audit_never_raises:
  "(\<exists>result. perform_audit L groq_response json_data db = Inr result) \<and>
   (audit_body L db json_data = Inl e \<and> e \<noteq> JSONDecodeError \<longrightarrow>
      (\<exists>result v. perform_audit L groq_response json_data db = Inr result
         \<and> is_compliant result = False
         \<and> violations result = [v] \<and> total_violations result = 1
         \<and> violation_type v = ''processing_error'' \<and> v_severity v = ''high''
         \<and> message v = ''Error processing audit: '' @ str_exn L e
         \<and> compliance_score result = 0
         \<and> approval_status result = None \<and> status_color result = None))"
  by (auto simp: perform_audit_cases error_result_def split: sum.splits)

theorem perform_audit_never_raises_witness:
  "audit_body example_lib (Inr default_rules) doc_list = Inl (NoAttribute (JArr []) ''get'')
   \<and> NoAttribute (JArr []) ''get'' \<noteq> JSONDecodeError
   \<and> (\<exists>result v.
        perform_audit example_lib ''Invoice for business expenses'' doc_list (Inr default_rules)
          = Inr result
        \<and> is_compliant result = False \<and> violations result = [v]
        \<and> violation_type v = ''processing_error'' \<and> v_severity v = ''high''
        \<and> message v = ''Error processing audit: '' @ str_exn example_lib (NoAttribute (JArr []) ''get'')
        \<and> compliance_score result = 0 \<and> approval_status result = None)"
proof -
  have h: "audit_body example_lib (Inr default_rules) doc_list = Inl (NoAttribute (JArr []) ''get'')"
    by code_simp
  have n: "NoAttribute (JArr []) ''get'' \<noteq> JSONDecodeError"
    by simp
  from perform_audit_never_raises
    [of example_lib "''Invoice for business expenses''" doc_list "Inr default_rules"
        "NoAttribute (JArr []) ''get''"] h n
  have "\<exists>result v.
        perform_audit example_lib ''Invoice for business expenses'' doc_list (Inr default_rules)
          = Inr result
        \<and> is_compliant result = False \<and> violations result = [v]
        \<and> violation_type v = ''processing_error'' \<and> v_severity v = ''high''
        \<and> message v = ''Error processing audit: '' @ str_exn example_lib (NoAttribute (JArr []) ''get'')
        \<and> compliance_score result = 0 \<and> approval_status result = None"
    by blast
  with h n show ?thesis by blast
qed

text \<open>
  Claim C6. Every result of \<^verbatim>\<open>perform_audit\<close> (from the category audit, from the keyword
  fallback or from the handler of the other exceptions) and every result of
  \<^verbatim>\<open>validate_against_policies\<close> has \<^verbatim>\<open>total_violations\<close> equal to the length of
  \<^verbatim>\<open>violations\<close>.
\<close>

theorem total_violations_is_length:
  "(perform_audit L groq_response json_data db = Inr result \<longrightarrow>
      total_violations result = length (violations result)) \<and>
   (validate_against_policies L invoice_data policies = Inr result' \<longrightarrow>
      total_violations result' = length (violations result'))"
proof (intro conjI impI)
  assume "perform_audit L groq_response json_data db = Inr result"
  then show "total_violations result = length (violations result)"
    by (auto simp: perform_audit_cases decide_total keyword_fallback_total error_result_def
        split: sum.splits if_splits dest!: audit_body_decide)
next
  assume "validate_against_policies L invoice_data policies = Inr result'"
  then show "total_violations result' = length (violations result')"
    by (auto simp: policy_result_total dest!: validate_policy_result)
qed

theorem total_violations_is_length_witness:
  "perform_audit example_lib ''Invoice for business expenses'' doc_approved (Inr default_rules)
     = Inr (decide example_lib ([], [], []))
   \<and> validate_against_policies example_lib [] field_policies
     = Inr (policy_result 7 (map (\<lambda>p. policy_violation p ''missing_field'' ''medium''
              (title (replace_underscores (field_name p)) @ '' is required but missing''))
              (take 4 field_policies)))
   \<and> total_violations (decide example_lib ([], [], [])) = 0
   \<and> total_violations (policy_result 7 (map (\<lambda>p. policy_violation p ''missing_field'' ''medium''
              (title (replace_underscores (field_name p)) @ '' is required but missing''))
              (take 4 field_policies))) = 4"
proof -
  let ?r = "decide example_lib ([], [], [])"
  let ?r' = "policy_result 7 (map (\<lambda>p. policy_violation p ''missing_field'' ''medium''
              (title (replace_underscores (field_name p)) @ '' is required but missing''))
              (take 4 field_policies))"
  have h1: "perform_audit example_lib ''Invoice for business expenses'' doc_approved
      (Inr default_rules) = Inr ?r"
    by code_simp
  have h2: "validate_against_policies example_lib [] field_policies = Inr ?r'"
    by code_simp
  have l1: "length (violations ?r) = 0" by code_simp
  have l2: "length (violations ?r') = 4" by code_simp
  from total_violations_is_length
    [of example_lib "''Invoice for business expenses''" doc_approved "Inr default_rules" ?r
        "[]" field_policies ?r'] h1 h2 l1 l2
  have "total_violations ?r = 0 \<and> total_violations ?r' = 4"
    by (simp only: simp_thms)
  with h1 h2 show ?thesis by blast
qed

text \<open>
  Claim C7. Every result of \<^verbatim>\<open>perform_audit\<close> that has an approval status is compliant
  exactly when that status is \<^verbatim>\<open>approved\<close>; the result of the handler of the other
  exceptions has no approval status. A result of \<^verbatim>\<open>validate_against_policies\<close> never has
  an approval status.
\<close>

theorem compliant_iff_approved:
  "(perform_audit L groq_response json_data db = Inr result \<and> approval_status result \<noteq> None \<longrightarrow>
      is_compliant result = (approval_status result = Some ''approved'')) \<and>
   (validate_against_policies L invoice_data policies = Inr result' \<longrightarrow>
      approval_status result' = None)"
proof (intro conjI impI)
  assume "perform_audit L groq_response json_data db = Inr result \<and> approval_status result \<noteq> None"
  then show "is_compliant result = (approval_status result = Some ''approved'')"
    by (auto simp: perform_audit_cases decide_compliant keyword_fallback_compliant error_result_def
        split: sum.splits if_splits dest!: audit_body_decide)
next
  assume "validate_against_policies L invoice_data policies = Inr result'"
  then show "approval_status result' = None"
    by (auto simp: policy_result_def Let_def dest!: validate_policy_result)
qed

theorem compliant_iff_approved_witness:
  "(\<exists>result.
      perform_audit example_lib ''Invoice for expensive meal'' doc_exceeded (Inr default_rules)
        = Inr result
      \<and> approval_status result = Some ''warning'' \<and> is_compliant result = False)
   \<and> (\<exists>result'.
      validate_against_policies example_lib [(''amount'', JNum 20000)] (drop 4 field_policies)
        = Inr result'
      \<and> violations result' \<noteq> [] \<and> approval_status result' = None)"
proof -
  let ?r = "decide example_lib ([], [JStr ''Expensive Dinner''],
      [amount_violation example_lib (JStr ''Expensive Dinner'') (JStr ''Food'') 2000
         (default_rules ! 0)])"
  let ?r' = "policy_result 3 [policy_violation (field_policies ! 4) ''amount_exceeded'' ''medium''
      ''Amount $20000.0 exceeds maximum limit of $10000.0'']"
  have r: "perform_audit example_lib ''Invoice for expensive meal'' doc_exceeded
      (Inr default_rules) = Inr ?r"
    by code_simp
  have a: "approval_status ?r = Some ''warning''"
    by (simp add: decide_def)
  then have s: "approval_status ?r \<noteq> None" by simp
  have r': "validate_against_policies example_lib [(''amount'', JNum 20000)]
      (drop 4 field_policies) = Inr ?r'"
    by code_simp
  have v: "violations ?r' \<noteq> []"
    by (simp add: policy_result_def)
  from compliant_iff_approved
    [of example_lib "''Invoice for expensive meal''" doc_exceeded "Inr default_rules" ?r
        "[(''amount'', JNum 20000)]" "drop 4 field_policies" ?r'] r s a r'
  have "is_compliant ?r = False \<and> approval_status ?r' = None"
    by simp
  with r a r' v show ?thesis by blast
qed

section \<open>What the structured path reads\<close>

lemma audit_body_items:
  assumes "json_loads L json_data = Inr (JObj d)"
  shows "audit_body L db json_data =
     bindE db (\<lambda>audit_rules.
     bindE (py_iter (dict_get d ''items'' (JArr []))) (\<lambda>item_list.
     bindE (check_items L (rules_dict_of audit_rules) item_list ([], [], [])) (\<lambda>st.
       Inr (decide L st))))"
  using assms by (simp add: audit_body_def bindE_def)

text \<open>
  Claim C10. Two JSON texts that parse to objects with the same \<^verbatim>\<open>items\<close> get the same
  result from \<^verbatim>\<open>perform_audit\<close>, for the same text, library and database, whatever
  their \<^verbatim>\<open>total_amount\<close> and their other keys are.
\<close>

theorem total_amount_not_used:
  assumes "json_loads L json_data1 = Inr (JObj d1)"
    and "json_loads L json_data2 = Inr (JObj d2)"
    and "map_of d1 ''items'' = map_of d2 ''items''"
  shows "perform_audit L groq_response json_data1 db = perform_audit L groq_response json_data2 db"
proof -
  have "dict_get d1 ''items'' (JArr []) = dict_get d2 ''items'' (JArr [])"
    using assms(3) by (simp add: dict_get_def)
  then have "audit_body L db json_data1 = audit_body L db json_data2"
    by (simp add: audit_body_items [OF assms(1)] audit_body_items [OF assms(2)])
  then show ?thesis by (simp add: perform_audit_def)
qed

theorem total_amount_not_used_witness:
  "json_loads example_lib doc_exceeded =
     Inr (JObj [(''items'', JArr items_exceeded), (''total_amount'', JNum 2000)])
   \<and> json_loads example_lib doc_exceeded_total =
     Inr (JObj [(''items'', JArr items_exceeded), (''total_amount'', JNum 1)])
   \<and> map_of [(''items'', JArr items_exceeded), (''total_amount'', JNum 2000)] ''items''
       = map_of [(''items'', JArr items_exceeded), (''total_amount'', JNum 1)] ''items''
   \<and> JNum 2000 \<noteq> JNum 1
   \<and> perform_audit example_lib ''Invoice for expensive meal'' doc_exceeded (Inr default_rules)
       = perform_audit example_lib ''Invoice for expensive meal'' doc_exceeded_total
           (Inr default_rules)"
proof -
  have h1: "json_loads example_lib doc_exceeded =
      Inr (JObj [(''items'', JArr items_exceeded), (''total_amount'', JNum 2000)])"
    by code_simp
  have h2: "json_loads example_lib doc_exceeded_total =
      Inr (JObj [(''items'', JArr items_exceeded), (''total_amount'', JNum 1)])"
    by code_simp
  have h3: "map_of [(''items'', JArr items_exceeded), (''total_amount'', JNum 2000)] ''items''
      = map_of [(''items'', JArr items_exceeded), (''total_amount'', JNum 1)] ''items''"
    by simp
  have h4: "JNum 2000 \<noteq> JNum 1" by simp
  from total_amount_not_used [OF h1 h2 h3, of "''Invoice for expensive meal''" "Inr default_rules"]
    h1 h2 h3 h4
  show ?thesis by blast
qed

section \<open>An amount that is absent, an amount that cannot be converted\<close>

lemma check_items_append:
  "check_items L rd (xs @ ys) st = bindE (check_items L rd xs st) (check_items L rd ys)"
  by (induction xs arbitrary: st) (auto simp: bindE_def split: sum.splits)

lemma py_float_error:
  "py_float L a = Inl e \<Longrightarrow> e \<noteq> JSONDecodeError"
  by (cases a) (auto split: option.splits if_splits)

lemma read_item_bad_amount:
  "map_of it ''amount'' = Some a \<Longrightarrow> py_float L a = Inl e \<Longrightarrow>
   read_item L rd (JObj it) = Inl e"
  by (simp add: read_item_def bindE_def dict_get_def)

lemma read_item_no_amount:
  "map_of it ''amount'' = None \<Longrightarrow>
   read_item L rd (JObj it) =
     bindE (resolve_rule rd (dict_get it ''category'' (JStr ''Others''))) (\<lambda>rule.
       Inr (dict_get it ''name'' (JStr []), dict_get it ''category'' (JStr ''Others''), 0, rule))"
  by (simp add: read_item_def bindE_def dict_get_def float_int_bound_def)

text \<open>
  Claim C5, as amended. An item that has no \<^verbatim>\<open>amount\<close> is read with the amount 0 (only
  its category can make the reading fail). An item whose \<^verbatim>\<open>amount\<close> is there and is
  refused by \<^verbatim>\<open>float\<close> (a string that does not parse raises \<^verbatim>\<open>ValueError\<close>) does not get
  the amount 0: when the items before it are read, \<^verbatim>\<open>perform_audit\<close> returns the
  degraded result of the handler of the other exceptions, for that exception.
\<close>

theorem amount_absent_or_refused:
  "(map_of it ''amount'' = None \<longrightarrow>
      read_item L rd (JObj it) =
        bindE (resolve_rule rd (dict_get it ''category'' (JStr ''Others''))) (\<lambda>rule.
          Inr (dict_get it ''name'' (JStr []), dict_get it ''category'' (JStr ''Others''), 0, rule)))
   \<and> (float_str L s = None \<longrightarrow> py_float L (JStr s) = Inl (FloatValueError s))
   \<and> (json_loads L json_data = Inr (JObj d)
        \<and> dict_get d ''items'' (JArr []) = JArr (before @ JObj it # after)
        \<and> db = Inr audit_rules
        \<and> list_all (item_reads L (rules_dict_of audit_rules)) before
        \<and> map_of it ''amount'' = Some a \<and> py_float L a = Inl e \<longrightarrow>
      perform_audit L groq_response json_data db = Inr (error_result L e)
      \<and> map violation_type (violations (error_result L e)) = [''processing_error'']
      \<and> approval_status (error_result L e) = None)"
proof (intro conjI impI)
  assume "map_of it ''amount'' = None"
  then show "read_item L rd (JObj it) =
        bindE (resolve_rule rd (dict_get it ''category'' (JStr ''Others''))) (\<lambda>rule.
          Inr (dict_get it ''name'' (JStr []), dict_get it ''category'' (JStr ''Others''), 0, rule))"
    by (rule read_item_no_amount)
next
  assume "float_str L s = None"
  then show "py_float L (JStr s) = Inl (FloatValueError s)" by simp
next
  assume a: "json_loads L json_data = Inr (JObj d)
        \<and> dict_get d ''items'' (JArr []) = JArr (before @ JObj it # after)
        \<and> db = Inr audit_rules
        \<and> list_all (item_reads L (rules_dict_of audit_rules)) before
        \<and> map_of it ''amount'' = Some a \<and> py_float L a = Inl e"
  let ?rd = "rules_dict_of audit_rules"
  from a have rd: "read_item L ?rd (JObj it) = Inl e"
    by (simp add: read_item_bad_amount)
  from a have pre: "list_all (item_reads L ?rd) before" by simp
  have "check_items L ?rd (before @ JObj it # after) ([], [], []) = Inl e"
    by (simp add: check_items_append check_items_reads [OF pre] bindE_def check_item_def rd)
  with a have "audit_body L db json_data = Inl e"
    by (simp add: audit_body_items bindE_def)
  moreover from a have "e \<noteq> JSONDecodeError" using py_float_error [of L a e] by blast
  ultimately show "perform_audit L groq_response json_data db = Inr (error_result L e)"
    by (simp add: perform_audit_cases)
next
  show "map violation_type (violations (error_result L e)) = [''processing_error'']"
    by (simp add: error_result_def)
next
  show "approval_status (error_result L e) = None"
    by (simp add: error_result_def)
qed

theorem amount_refused_counterexample:
  "example_float ''abc'' = None
   \<and> perform_audit example_lib ''Invoice for business expenses'' doc_bad_amount (Inr default_rules)
       = Inr (error_result example_lib (FloatValueError ''abc''))
   \<and> map violation_type (violations (error_result example_lib (FloatValueError ''abc'')))
       = [''processing_error'']
   \<and> approval_status (error_result example_lib (FloatValueError ''abc'')) = None
   \<and> message (hd (violations (error_result example_lib (FloatValueError ''abc''))))
       = ''Error processing audit: could not convert string to float: '' @ quoted ''abc''"
  by code_simp

theorem amount_absent_or_refused_witness:
  "map_of [(''name'', JStr ''Business Lunch''), (''category'', JStr ''Food'')] ''amount'' = None
   \<and> read_item example_lib (rules_dict_of default_rules)
        (JObj [(''name'', JStr ''Business Lunch''), (''category'', JStr ''Food'')])
       = Inr (JStr ''Business Lunch'', JStr ''Food'', 0, Some (default_rules ! 0))
   \<and> float_str example_lib ''abc'' = None
   \<and> py_float example_lib (JStr ''abc'') = Inl (FloatValueError ''abc'')
   \<and> json_loads example_lib doc_bad_amount =
       Inr (JObj [(''items'', JArr items_bad_amount), (''total_amount'', JNum 800)])
   \<and> perform_audit example_lib ''Invoice for business expenses'' doc_bad_amount
        (Inr default_rules) = Inr (error_result example_lib (FloatValueError ''abc''))"
proof -
  let ?it = "[(''name'', JStr ''Business Lunch''), (''category'', JStr ''Food'')]"
  let ?bad = "[(''name'', JStr ''Business Lunch''), (''category'', JStr ''Food''),
               (''amount'', JStr ''abc'')]"
  let ?d = "[(''items'', JArr items_bad_amount), (''total_amount'', JNum 800)]"
  have a1: "map_of ?it ''amount'' = None" by simp
  have a2: "bindE (resolve_rule (rules_dict_of default_rules)
                (dict_get ?it ''category'' (JStr ''Others''))) (\<lambda>rule.
          Inr (dict_get ?it ''name'' (JStr []), dict_get ?it ''category'' (JStr ''Others''),
               0 :: rat, rule))
      = Inr (JStr ''Business Lunch'', JStr ''Food'', 0, Some (default_rules ! 0))"
    by code_simp
  have b1: "float_str example_lib ''abc'' = None" by code_simp
  have c1: "json_loads example_lib doc_bad_amount = Inr (JObj ?d)" by code_simp
  have c2: "dict_get ?d ''items'' (JArr []) = JArr ([] @ JObj ?bad # [])"
    by (simp add: dict_get_def items_bad_amount_def line_item_def)
  have c4: "list_all (item_reads example_lib (rules_dict_of default_rules)) []" by simp
  have c5: "map_of ?bad ''amount'' = Some (JStr ''abc'')" by simp
  note A = amount_absent_or_refused
    [where it = ?it and L = example_lib and rd = "rules_dict_of default_rules" and s = "''abc''"]
  note T = amount_absent_or_refused
    [where it = ?bad and L = example_lib and s = "''abc''" and json_data = doc_bad_amount
       and d = ?d and before = "[]" and after = "[]" and db = "Inr default_rules"
       and audit_rules = default_rules and a = "JStr ''abc''" and e = "FloatValueError ''abc''"
       and groq_response = "''Invoice for business expenses''"]
  from A a1 a2 have r1: "read_item example_lib (rules_dict_of default_rules) (JObj ?it)
      = Inr (JStr ''Business Lunch'', JStr ''Food'', 0, Some (default_rules ! 0))"
    by simp
  from A b1 have r2: "py_float example_lib (JStr ''abc'') = Inl (FloatValueError ''abc'')"
    by blast
  from T c1 c2 c4 c5 r2 have r3:
    "perform_audit example_lib ''Invoice for business expenses'' doc_bad_amount
        (Inr default_rules) = Inr (error_result example_lib (FloatValueError ''abc''))"
    by blast
  from a1 r1 b1 r2 c1 r3 show ?thesis by blast
qed

section \<open>The score of the policy evaluator\<close>











section \<open>The amount of the field extractor\<close>

lemma amount_loop_Cons:
  "amount_loop L (p # ps) text =
     (case amount_try L p text of Some a \<Rightarrow> Some a | None \<Rightarrow> amount_loop L ps text)"
  by (simp add: amount_try_def split: option.splits)

text \<open>For any list of patterns, the loop gives what the first successful pattern gives.\<close>

lemma amount_loop_first:
  "amount_loop L ps text =
     (case filter (\<lambda>p. amount_try L p text \<noteq> None) ps of
        [] \<Rightarrow> None
      | p # rest \<Rightarrow> amount_try L p text)"
  by (induction ps)
     (simp_all add: amount_loop_Cons del: amount_loop.simps(2) split: option.splits)

lemma remove_commas_set: "set (remove_commas g) = set g - {CHR '',''}"
  by (auto simp: remove_commas_def)

lemma map_of_set_key:
  "map_of (set_key d k v) k' =
     (case map_of d k' of Some x \<Rightarrow> Some x | None \<Rightarrow> if k' = k then v else None)"
  by (cases v) (auto simp: set_key_def map_add_def split: option.splits)

lemma extract_amount:
  "map_of (extract_invoice_data L text) ''amount''
     = map_option JNum (amount_loop L amount_patterns text)"
  by (simp add: extract_invoice_data_def Let_def map_of_set_key map_add_def
      split: option.splits)

text \<open>
  Claim C9. The amount of the extracted fields is what the three amount patterns give,
  tried in their order: the first pattern that matches and whose group 1, with its commas
  taken out, is accepted by \<^verbatim>\<open>float\<close> gives the amount; a pattern that does not match, or
  whose match is not accepted, is passed over; the key is absent exactly when all three
  are passed over. The extractor is a total function: it returns a dictionary for every
  text.
\<close>

theorem amount_first_parseable_match:
  "amount_patterns = [amount_patterns ! 0, amount_patterns ! 1, amount_patterns ! 2]
   \<and> map_of (extract_invoice_data L text) ''amount'' =
       map_option JNum
         (case amount_try L (amount_patterns ! 0) text of
            Some a \<Rightarrow> Some a
          | None \<Rightarrow>
              (case amount_try L (amount_patterns ! 1) text of
                 Some a \<Rightarrow> Some a
               | None \<Rightarrow> amount_try L (amount_patterns ! 2) text))
   \<and> (map_of (extract_invoice_data L text) ''amount'' = None) =
       (amount_try L (amount_patterns ! 0) text = None
        \<and> amount_try L (amount_patterns ! 1) text = None
        \<and> amount_try L (amount_patterns ! 2) text = None)
   \<and> amount_try L pattern text =
       (case re_search L pattern text of
          None \<Rightarrow> None
        | Some g \<Rightarrow> float_str L (filter (\<lambda>c. c \<noteq> CHR '','') g))"
proof -
  have three: "amount_patterns = [amount_patterns ! 0, amount_patterns ! 1, amount_patterns ! 2]"
    by (simp add: amount_patterns_def)
  have "amount_loop L [amount_patterns ! 0, amount_patterns ! 1, amount_patterns ! 2] text =
         (case amount_try L (amount_patterns ! 0) text of
            Some a \<Rightarrow> Some a
          | None \<Rightarrow>
              (case amount_try L (amount_patterns ! 1) text of
                 Some a \<Rightarrow> Some a
               | None \<Rightarrow> amount_try L (amount_patterns ! 2) text))"
    by (simp only: amount_loop_Cons amount_loop.simps split: option.splits) simp
  with three have loop: "amount_loop L amount_patterns text =
         (case amount_try L (amount_patterns ! 0) text of
            Some a \<Rightarrow> Some a
          | None \<Rightarrow>
              (case amount_try L (amount_patterns ! 1) text of
                 Some a \<Rightarrow> Some a
               | None \<Rightarrow> amount_try L (amount_patterns ! 2) text))"
    by simp
  have key: "map_of (extract_invoice_data L text) ''amount'' =
       map_option JNum
         (case amount_try L (amount_patterns ! 0) text of
            Some a \<Rightarrow> Some a
          | None \<Rightarrow>
              (case amount_try L (amount_patterns ! 1) text of
                 Some a \<Rightarrow> Some a
               | None \<Rightarrow> amount_try L (amount_patterns ! 2) text))"
    by (simp only: extract_amount loop)
  have absent: "(map_of (extract_invoice_data L text) ''amount'' = None) =
       (amount_try L (amount_patterns ! 0) text = None
        \<and> amount_try L (amount_patterns ! 1) text = None
        \<and> amount_try L (amount_patterns ! 2) text = None)"
    unfolding key by (auto split: option.splits)
  have one: "amount_try L pattern text =
       (case re_search L pattern text of
          None \<Rightarrow> None
        | Some g \<Rightarrow> float_str L (filter (\<lambda>c. c \<noteq> CHR '','') g))"
    unfolding amount_try_def remove_commas_def by (rule refl)
  from three key absent one show ?thesis by blast
qed

text \<open>
  In \<^verbatim>\<open>total: , paid $5\<close> the first pattern matches with the group \<^verbatim>\<open>,\<close>, which is the
  empty text without its comma: \<^verbatim>\<open>float\<close> refuses it, and the second pattern gives 5. In a
  text without a digit no pattern matches and the key is absent.
\<close>

theorem amount_first_parseable_match_witness:
  "re_search example_lib (amount_patterns ! 0) ''total: , paid $5'' = Some '',''
   \<and> amount_try example_lib (amount_patterns ! 0) ''total: , paid $5'' = None
   \<and> amount_try example_lib (amount_patterns ! 1) ''total: , paid $5'' = Some 5
   \<and> map_of (extract_invoice_data example_lib ''total: , paid $5'') ''amount'' = Some (JNum 5)
   \<and> map_of (extract_invoice_data example_lib ''no amount here'') ''amount'' = None"
proof -
  have s: "re_search example_lib (amount_patterns ! 0) ''total: , paid $5'' = Some '',''"
    by code_simp
  have t0: "amount_try example_lib (amount_patterns ! 0) ''total: , paid $5'' = None"
    by code_simp
  have t1: "amount_try example_lib (amount_patterns ! 1) ''total: , paid $5'' = Some 5"
    by code_simp
  have n0: "amount_try example_lib (amount_patterns ! 0) ''no amount here'' = None"
    by code_simp
  have n1: "amount_try example_lib (amount_patterns ! 1) ''no amount here'' = None"
    by code_simp
  have n2: "amount_try example_lib (amount_patterns ! 2) ''no amount here'' = None"
    by code_simp
  from amount_first_parseable_match [of example_lib "''total: , paid $5''"] t0 t1
  have a: "map_of (extract_invoice_data example_lib ''total: , paid $5'') ''amount''
      = Some (JNum 5)"
    by simp
  from amount_first_parseable_match [of example_lib "''no amount here''"] n0 n1 n2
  have b: "map_of (extract_invoice_data example_lib ''no amount here'') ''amount'' = None"
    by simp
  from s t0 t1 a b show ?thesis by blast
qed

section \<open>The content warning of the policy evaluator\<close>

lemma check_policies_raises:
  assumes "pol \<in> set policies" "is_active pol"
    and "\<exists>e. check_policy L invoice_data pol = Inl e"
  shows "\<exists>e. check_policies L invoice_data policies viols = Inl e"
  using assms(1)
proof (induction policies arbitrary: viols)
  case Nil
  then show ?case by simp
next
  case (Cons p ps)
  show ?case
  proof (cases "p = pol")
    case True
    with assms(2,3) show ?thesis by (auto simp: bindE_def)
  next
    case False
    with Cons.prems have "pol \<in> set ps" by simp
    from Cons.IH [OF this] show ?thesis
      by (auto simp: bindE_def split: sum.splits)
  qed
qed

lemma content_warning_raises:
  assumes "rule_type pol = ''content_warning''" "condition pol = ''contains_keywords''"
  shows "check_policy L invoice_data pol =
     (case expected_value pol of
        None \<Rightarrow> Inl (NoAttribute JNull ''split'')
      | Some ev \<Rightarrow> Inl (NameError ''groq_response''))"
  using assms by (simp add: check_policy_def Let_def)

text \<open>
  Property X1. A list of policies with an active \<^verbatim>\<open>content_warning\<close> policy of condition
  \<^verbatim>\<open>contains_keywords\<close> never gets a result: the evaluator raises, whatever the extracted
  fields and the other policies are. The default policies hold four of them.
\<close>

theorem content_warning_no_result:
  assumes "pol \<in> set policies" "is_active pol"
    and "rule_type pol = ''content_warning''" "condition pol = ''contains_keywords''"
  shows "\<exists>e. validate_against_policies L invoice_data policies = Inl e"
proof -
  have "\<exists>e. check_policy L invoice_data pol = Inl e"
    by (simp add: content_warning_raises [OF assms(3,4)] split: option.splits)
  from check_policies_raises [OF assms(1,2) this, of "[]"]
  obtain e where "check_policies L invoice_data policies [] = Inl e" by blast
  then show ?thesis by (simp add: validate_against_policies_def bindE_def Let_def)
qed

theorem content_warning_no_result_witness:
  "alcohol_policy \<in> set (field_policies @ [alcohol_policy])
   \<and> is_active alcohol_policy
   \<and> rule_type alcohol_policy = ''content_warning''
   \<and> condition alcohol_policy = ''contains_keywords''
   \<and> (\<exists>e. validate_against_policies example_lib [(''amount'', JNum 5)]
          (field_policies @ [alcohol_policy]) = Inl e)"
proof -
  have h1: "alcohol_policy \<in> set (field_policies @ [alcohol_policy])" by simp
  have h2: "is_active alcohol_policy" by (simp add: alcohol_policy_def policy_def)
  have h3: "rule_type alcohol_policy = ''content_warning''"
    by (simp add: alcohol_policy_def policy_def)
  have h4: "condition alcohol_policy = ''contains_keywords''"
    by (simp add: alcohol_policy_def policy_def)
  from content_warning_no_result [OF h1 h2 h3 h4, of example_lib "[(''amount'', JNum 5)]"]
    h1 h2 h3 h4
  show ?thesis by blast
qed

text \<open>
  Claim C2 fails on the code. With no extracted field and the default alcohol policy the
  evaluator raises \<^verbatim>\<open>NameError\<close> for \<^verbatim>\<open>groq_response\<close> instead of returning a result with
  a \<^verbatim>\<open>content_warning\<close> violation: the raw text the claim speaks of is not among the
  arguments of \<^verbatim>\<open>validate_against_policies\<close>.
\<close>

theorem content_warning_name_error:
  "validate_against_policies example_lib [] [alcohol_policy] = Inl (NameError ''groq_response'')"
  by code_simp

section \<open>The fallback and the other restricted categories\<close>

text \<open>
  Property X3. The keyword fallback looks for alcohol only. The answers about a spa and
  about jewelry, for which \<^verbatim>\<open>test_image_audit.py\<close> expects \<^verbatim>\<open>rejected\<close>, are approved
  with no violation.
\<close>

theorem fallback_approves_spa_and_jewelry:
  "perform_audit example_lib spa_text ''invalid json'' (Inr default_rules)
     = Inr (keyword_fallback spa_text)
   \<and> perform_audit example_lib jewelry_text ''invalid json'' (Inr default_rules)
     = Inr (keyword_fallback jewelry_text)
   \<and> approval_status (keyword_fallback spa_text) = Some ''approved''
   \<and> violations (keyword_fallback spa_text) = []
   \<and> approval_status (keyword_fallback jewelry_text) = Some ''approved''
   \<and> violations (keyword_fallback jewelry_text) = []"
  by code_simp

end
